theory Spec2Isabelle
  imports Complex_Main "HOL-Library.Word"
begin

unbundle bit_operations_syntax

section \<open>Python errors\<close>

text \<open>
  The exceptions the modelled code can raise. A function of the source that may raise
  returns \<open>py_error + 'a\<close>, with \<open>Inl\<close> for the exception.
\<close>

datatype py_error =
    AttributeError
  | IndexError
  | ValueError
  | TypeError
  | RuntimeError
  | OSError

section \<open>Sharding names (environment.py)\<close>

subsection \<open>\<open>str.split\<close> and \<open>str.join\<close>\<close>

text \<open>
  \<open>name.split(".")\<close> cuts at every separator and keeps empty pieces, so the result is
  never the empty list: \<open>"".split(".") == [""]\<close>.
\<close>

fun split :: "char \<Rightarrow> string \<Rightarrow> string list" where
  "split sep [] = [[]]"
| "split sep (c # cs) =
     (if c = sep then [] # split sep cs
      else (case split sep cs of
              [] \<Rightarrow> [[c]]
            | t # ts \<Rightarrow> (c # t) # ts))"

fun join :: "string \<Rightarrow> string list \<Rightarrow> string" where
  "join sep [] = []"
| "join sep [t] = t"
| "join sep (t # u # ts) = t @ sep @ join sep (u # ts)"

subsection \<open>\<open>is_integer\<close>: does \<open>int(t)\<close> succeed\<close>

text \<open>
  \<open>is_integer(t)\<close> is \<open>True\<close> exactly when \<open>int(t)\<close> does not raise. For a string,
  \<open>int\<close> strips surrounding whitespace, accepts one optional sign, and then wants decimal
  digits, where single underscores may stand between two digits. Names are modelled over
  ASCII; the interpreter's bound on the number of digits is not part of the model.
\<close>

definition is_space :: "char \<Rightarrow> bool" where
  "is_space c = (c \<in> set [CHR 0x09, CHR 0x0A, CHR 0x0B, CHR 0x0C, CHR 0x0D, CHR 0x20])"

definition is_digit :: "char \<Rightarrow> bool" where
  "is_digit c = (c \<in> set ''0123456789'')"

definition strip :: "string \<Rightarrow> string" where
  "strip s = rev (dropWhile is_space (rev (dropWhile is_space s)))"

definition drop_sign :: "string \<Rightarrow> string" where
  "drop_sign s =
     (case s of
        [] \<Rightarrow> []
      | c # cs \<Rightarrow> if c = CHR ''+'' \<or> c = CHR ''-'' then cs else s)"

fun digits_us :: "string \<Rightarrow> bool" where
  "digits_us [] = False"
| "digits_us [c] = is_digit c"
| "digits_us (c # d # cs) =
     (is_digit c \<and> (if d = CHR ''_'' then digits_us cs else digits_us (d # cs)))"

definition is_integer :: "string \<Rightarrow> bool" where
  "is_integer t = digits_us (drop_sign (strip t))"

subsection \<open>\<open>process_sharding_name\<close>\<close>

definition star_token :: "string \<Rightarrow> string" where
  "star_token t = (if is_integer t then ''*'' else t)"

definition process_sharding_name :: "string \<Rightarrow> string" where
  "process_sharding_name name =
     (let tokens = split CHR ''.'' name;
          tokens = map star_token tokens
      in join ''.'' tokens)"

section \<open>The environment (environment.py)\<close>

subsection \<open>Tuples and lists of Python\<close>

text \<open>
  \<open>t.index(x)\<close> is the first position of \<open>x\<close> and raises \<open>ValueError\<close> when \<open>x\<close> is
  absent; \<open>t[i]\<close> and \<open>t[i] = v\<close> count a negative \<open>i\<close> from the end and raise
  \<open>IndexError\<close> out of range.
\<close>

fun tuple_index :: "'a list \<Rightarrow> 'a \<Rightarrow> py_error + int" where
  "tuple_index [] x = Inl ValueError"
| "tuple_index (y # ys) x =
     (if y = x then Inr 0
      else (case tuple_index ys x of Inl e \<Rightarrow> Inl e | Inr i \<Rightarrow> Inr (i + 1)))"

definition norm_index :: "nat \<Rightarrow> int \<Rightarrow> nat option" where
  "norm_index n i =
     (let j = (if i < 0 then i + int n else i)
      in if 0 \<le> j \<and> j < int n then Some (nat j) else None)"

definition getitem :: "'a list \<Rightarrow> int \<Rightarrow> py_error + 'a" where
  "getitem xs i = (case norm_index (length xs) i of None \<Rightarrow> Inl IndexError | Some j \<Rightarrow> Inr (xs ! j))"

definition setitem :: "'a list \<Rightarrow> int \<Rightarrow> 'a \<Rightarrow> py_error + 'a list" where
  "setitem xs i v =
     (case norm_index (length xs) i of None \<Rightarrow> Inl IndexError | Some j \<Rightarrow> Inr (xs[j := v]))"

subsection \<open>Configuration\<close>

record JetEngineEnvironmentData =
  checkpoint_path :: string
  checkpoint_format :: string
  tokenizer_path :: string
  max_input_sequence_length :: int
  max_decode_length :: int
  batch_size :: int
  cache_sequence_length :: int
  enable_weight_quantization :: bool
  enable_kv_quantization :: bool
  model_type :: string
  attention_kv_axis_names :: "string list"
  cache_shape :: "int list"
  num_layers :: int
  kv_cache_shard_axis :: string
  experimental_sharding_axis_override :: "(string \<times> int) list"
  qkv_fusion :: bool
  bf16_enable :: bool
  sharding_config_path :: string
  shard_on_batch :: bool

text \<open>The defaults of the dataclass.\<close>

definition default_data :: JetEngineEnvironmentData where
  "default_data =
     \<lparr> checkpoint_path = [],
       checkpoint_format = ''safetensors'',
       tokenizer_path = [],
       max_input_sequence_length = 1024,
       max_decode_length = 1024,
       batch_size = 32,
       cache_sequence_length = 2048,
       enable_weight_quantization = False,
       enable_kv_quantization = False,
       model_type = ''llama-2-13b'',
       attention_kv_axis_names = [''batch'', ''num_attn_heads'', ''sequence_length'', ''head_dim''],
       cache_shape = [],
       num_layers = 0,
       kv_cache_shard_axis = ''num_attn_heads'',
       experimental_sharding_axis_override = [],
       qkv_fusion = False,
       bf16_enable = True,
       sharding_config_path = [],
       shard_on_batch = False \<rparr>"

subsection \<open>Meshes and shardings\<close>

text \<open>
  A mesh is the grid of devices with its axis names; a partition spec holds one entry per
  leading tensor axis, \<open>None\<close> for an axis that is not partitioned; a named sharding
  pairs the two. The sharding config maps a weight name to an axis, or to \<open>None\<close>
  (YAML \<open>null\<close>) for a replicated weight.
\<close>

record Mesh =
  device_mesh :: "nat \<times> nat"
  axis_names :: "string list"

type_synonym PartitionSpec = "string option list"

record NamedSharding =
  ns_mesh :: Mesh
  ns_spec :: PartitionSpec

type_synonym sharding_config = "string \<rightharpoonup> int option"

record JetEngineEnvironment =
  env_data :: JetEngineEnvironmentData
  seq_len :: int
  env_mesh :: Mesh
  y_sharding :: NamedSharding
  x_sharding :: NamedSharding
  replicated :: NamedSharding
  cache_sharding :: NamedSharding
  env_sharding_config :: sharding_config

definition sharding_by_axis :: "Mesh \<Rightarrow> int option \<Rightarrow> py_error + NamedSharding" where
  "sharding_by_axis m axis =
     (case axis of
        None \<Rightarrow> Inr \<lparr> ns_mesh = m, ns_spec = [] \<rparr>
      | Some a \<Rightarrow>
          if a = - 1 then Inr \<lparr> ns_mesh = m, ns_spec = [] \<rparr>
          else (case setitem (replicate (nat (a + 1)) None) a (Some ''x'') of
                  Inl e \<Rightarrow> Inl e
                | Inr sharding \<Rightarrow> Inr \<lparr> ns_mesh = m, ns_spec = sharding \<rparr>))"

subsection \<open>Construction\<close>

text \<open>
  The axis the configuration names for the cache (lines 103 to 108 of the constructor),
  and the axis the cache is sharded on after the fallback (lines 110 to 113).
\<close>

definition nominal_axis :: "JetEngineEnvironmentData \<Rightarrow> py_error + int" where
  "nominal_axis d =
     (if shard_on_batch d then Inr 0
      else tuple_index (attention_kv_axis_names d) (kv_cache_shard_axis d))"

definition cache_sharding_axis :: "JetEngineEnvironmentData \<Rightarrow> py_error + int" where
  "cache_sharding_axis d =
     (case nominal_axis d of
        Inl e \<Rightarrow> Inl e
      | Inr axis \<Rightarrow>
          (case getitem (cache_shape d) axis of
             Inl e \<Rightarrow> Inl e
           | Inr extent \<Rightarrow>
               if extent = 1 then Inr (int (length (cache_shape d)) - 1) else Inr axis))"

text \<open>
  \<open>_load_sharding_config\<close> reads the YAML document at the configured path, or takes the
  empty dict when no path is configured. Opening and parsing the file is the parameter
  \<open>safe_load\<close>.
\<close>

definition load_sharding_config ::
  "(string \<Rightarrow> py_error + sharding_config) \<Rightarrow> JetEngineEnvironmentData \<Rightarrow> py_error + sharding_config" where
  "load_sharding_config safe_load d =
     (if sharding_config_path d \<noteq> [] then safe_load (sharding_config_path d)
      else Inr Map.empty)"

text \<open>
  The constructor. \<open>device_count\<close> is \<open>jax.device_count()\<close>; the mesh has the shape
  \<open>(device_count, 1)\<close> and the axis names \<open>x\<close> and \<open>y\<close>.
\<close>

definition JetEngineEnvironment_init ::
  "nat \<Rightarrow> (string \<Rightarrow> py_error + sharding_config) \<Rightarrow> JetEngineEnvironmentData
     \<Rightarrow> py_error + JetEngineEnvironment" where
  "JetEngineEnvironment_init device_count safe_load d =
     (let m = \<lparr> device_mesh = (device_count, 1), axis_names = [''x'', ''y''] \<rparr>
      in case cache_sharding_axis d of
           Inl e \<Rightarrow> Inl e
         | Inr axis \<Rightarrow>
             (case sharding_by_axis m (Some axis) of
                Inl e \<Rightarrow> Inl e
              | Inr cs \<Rightarrow>
                  (case load_sharding_config safe_load d of
                     Inl e \<Rightarrow> Inl e
                   | Inr cfg \<Rightarrow>
                       Inr \<lparr> env_data = d,
                             seq_len = max_input_sequence_length d,
                             env_mesh = m,
                             y_sharding = \<lparr> ns_mesh = m, ns_spec = [None, Some ''x''] \<rparr>,
                             x_sharding = \<lparr> ns_mesh = m, ns_spec = [Some ''x''] \<rparr>,
                             replicated = \<lparr> ns_mesh = m, ns_spec = [] \<rparr>,
                             cache_sharding = cs,
                             env_sharding_config = cfg \<rparr>)))"

subsection \<open>\<open>sharding_by_name\<close>\<close>

definition sharding_by_name :: "JetEngineEnvironment \<Rightarrow> string \<Rightarrow> py_error + NamedSharding" where
  "sharding_by_name self name =
     (if shard_on_batch (env_data self) then sharding_by_axis (env_mesh self) (Some 0)
      else (case env_sharding_config self name of
              Some axis \<Rightarrow> sharding_by_axis (env_mesh self) axis
            | None \<Rightarrow>
                (let name = process_sharding_name name
                 in case env_sharding_config self name of
                      Some axis \<Rightarrow> sharding_by_axis (env_mesh self) axis
                    | None \<Rightarrow> Inl RuntimeError)))"

section \<open>Tensors\<close>

text \<open>
  The caches hold tensors of rank four, \<open>(batch, heads, seqlen, head_dim)\<close>. A tensor is
  its element type tag, its shape and its elements by index; only the elements at indices
  inside the shape are meaningful. An int8 element is an 8-bit word. A floating point
  element is a finite number, an infinity or a NaN; the sign of a zero is not kept.
\<close>

datatype dtype = bfloat16 | float32 | int8

datatype fval = Finite rat | PosInf | NegInf | NaN

instantiation fval :: "{zero, one}"
begin

definition zero_fval :: fval where "zero_fval = Finite 0"

definition one_fval :: fval where "one_fval = Finite 1"

instance ..

end

type_synonym shape4 = "nat \<times> nat \<times> nat \<times> nat"

record 'a tensor =
  dtype :: dtype
  shape :: shape4
  elem :: "nat \<Rightarrow> nat \<Rightarrow> nat \<Rightarrow> nat \<Rightarrow> 'a"

definition full :: "shape4 \<Rightarrow> 'a \<Rightarrow> dtype \<Rightarrow> 'a tensor" where
  "full sh v dt = \<lparr> dtype = dt, shape = sh, elem = (\<lambda>b h s d. v) \<rparr>"

definition zeros :: "shape4 \<Rightarrow> dtype \<Rightarrow> ('a::zero) tensor" where
  "zeros sh dt = full sh 0 dt"

definition ones :: "shape4 \<Rightarrow> dtype \<Rightarrow> ('a::one) tensor" where
  "ones sh dt = full sh 1 dt"

text \<open>
  \<open>jnp.zeros(shape, device=device, dtype=dtype)\<close> places the array on \<open>device\<close>, which for
  the caches is a sharding. A sharding that cannot partition the shape makes the call
  raise; whether it can is the parameter \<open>fits\<close>.
\<close>

definition jnp_zeros ::
  "(shape4 \<Rightarrow> 'd \<Rightarrow> bool) \<Rightarrow> shape4 \<Rightarrow> 'd \<Rightarrow> dtype \<Rightarrow> py_error + ('a::zero) tensor" where
  "jnp_zeros fits sh device dt = (if fits sh device then Inr (zeros sh dt) else Inl ValueError)"

subsection \<open>Torch tensors and JAX arrays\<close>

text \<open>
  The caches and their arguments are torch tensors that wrap JAX arrays.
  \<open>torch_xla2.tensor.unwrap\<close> gives the JAX array of a tensor. \<open>torch.squeeze\<close> is a
  function of torch tensors: called with a JAX array it raises \<open>TypeError\<close>. Called with
  a tensor it drops axis 2 when that axis has extent 1; the result is kept here with its
  four indices, and the indexed write below reads it without axis 2.
\<close>

datatype 'a operand = TorchTensor "'a tensor" | JaxArray "'a tensor"

definition unwrap :: "'a tensor \<Rightarrow> 'a operand" where
  "unwrap t = JaxArray t"

definition torch_squeeze :: "'a operand \<Rightarrow> py_error + 'a tensor" where
  "torch_squeeze x = (case x of TorchTensor t \<Rightarrow> Inr t | JaxArray t \<Rightarrow> Inl TypeError)"

subsection \<open>The indexed write \<open>buf[batch, :, pos] = squeeze(val, 2)\<close>\<close>

text \<open>
  Both generate caches write with the index \<open>(batch, :, pos)\<close>, where \<open>batch\<close> and \<open>pos\<close>
  are index vectors of one length \<open>n\<close>: entry \<open>i\<close> addresses row \<open>batch[i]\<close> and column
  \<open>pos[i]\<close>, and receives \<open>val[i, :, 0, :]\<close>. The value is \<open>val\<close> without its axis 2, which
  must have extent 1, broadcast to \<open>(n, heads, head_dim)\<close>: an extent of the value is the
  target's extent or 1.

  The buffers are JAX arrays. A negative index counts from the end of its axis, as in
  NumPy; an index that is still outside of the axis then is not an error: that entry of
  the update is dropped.
\<close>

definition broadcastable :: "nat \<Rightarrow> nat \<Rightarrow> bool" where
  "broadcastable k n = (k = n \<or> k = 1)"

definition bcast :: "nat \<Rightarrow> nat \<Rightarrow> nat" where
  "bcast k i = (if k = 1 then 0 else i)"

definition put_row :: "'a tensor \<Rightarrow> nat \<Rightarrow> int \<Rightarrow> (nat \<Rightarrow> nat \<Rightarrow> 'a) \<Rightarrow> 'a tensor" where
  "put_row buf b p v =
     (case shape buf of (B, H, C, D) \<Rightarrow>
        (case (if b < B then norm_index C p else None) of
           None \<Rightarrow> buf
         | Some s \<Rightarrow>
             buf\<lparr> elem := (\<lambda>b' h s' d.
                    if b' = b \<and> s' = s \<and> h < H \<and> d < D then v h d
                    else elem buf b' h s' d) \<rparr>))"

fun put_rows :: "'a tensor \<Rightarrow> (nat \<times> nat \<times> int) list \<Rightarrow> (nat \<Rightarrow> nat \<Rightarrow> nat \<Rightarrow> 'a) \<Rightarrow> 'a tensor" where
  "put_rows buf [] v = buf"
| "put_rows buf ((i, b, p) # rest) v = put_rows (put_row buf b p (v i)) rest v"

definition index_put :: "'a tensor \<Rightarrow> nat list \<Rightarrow> int list \<Rightarrow> 'a tensor \<Rightarrow> py_error + 'a tensor" where
  "index_put buf batch pos val =
     (case shape buf of (B, H, C, D) \<Rightarrow>
      case shape val of (Bk, Hk, Sk, Dk) \<Rightarrow>
        let n = length batch in
        if Sk \<noteq> 1 \<or> \<not> broadcastable Bk n \<or> \<not> broadcastable Hk H \<or> \<not> broadcastable Dk D
        then Inl ValueError
        else Inr (put_rows buf (zip [0..<n] (zip batch pos))
                    (\<lambda>i h d. elem val (bcast Bk i) (bcast Hk h) 0 (bcast Dk d))))"

section \<open>The caches (cache_manager.py)\<close>

text \<open>
  What \<open>update\<close> returns: the pair \<open>(keys, values)\<close>, or the four values
  \<open>(keys, values, key scales, value scales)\<close>.
\<close>

datatype ('a, 's) kv_result =
    KV "'a tensor" "'a tensor"
  | KVScaled "'a tensor" "'a tensor" "'s tensor" "'s tensor"

subsection \<open>\<open>KVCachePrefill\<close>\<close>

record 'a KVCachePrefill =
  kv_quantize :: bool
  prefill_cache_k :: "'a tensor option"
  prefill_cache_v :: "'a tensor option"

definition KVCachePrefill_init :: "bool \<Rightarrow> 'a KVCachePrefill" where
  "KVCachePrefill_init q = \<lparr> kv_quantize = q, prefill_cache_k = None, prefill_cache_v = None \<rparr>"

definition KVCachePrefill_update ::
  "'a KVCachePrefill \<Rightarrow> 'a tensor \<Rightarrow> 'a tensor \<Rightarrow> 'a KVCachePrefill \<times> ('a, fval) kv_result" where
  "KVCachePrefill_update self key val =
     (let self = self\<lparr> prefill_cache_k := Some key, prefill_cache_v := Some val \<rparr>
      in if kv_quantize self then
           (case shape key of (bsz, _, seq, _) \<Rightarrow>
              let ones = ones (bsz, 1, seq, 1) bfloat16
              in (self, KVScaled key val ones ones))
         else (self, KV key val))"

definition KVCachePrefill_state :: "'a KVCachePrefill \<Rightarrow> 'a tensor option \<times> 'a tensor option" where
  "KVCachePrefill_state self = (prefill_cache_k self, prefill_cache_v self)"

definition KVCachePrefill_flatten ::
  "'a KVCachePrefill \<Rightarrow> ('a tensor option \<times> 'a tensor option) \<times> bool" where
  "KVCachePrefill_flatten cache = ((prefill_cache_k cache, prefill_cache_v cache), kv_quantize cache)"

text \<open>
  \<open>KVCachePrefill_unflatten\<close> builds the cache and ends without a \<open>return\<close> statement:
  the call evaluates to Python's \<open>None\<close>.
\<close>

definition KVCachePrefill_unflatten ::
  "bool \<Rightarrow> 'a tensor option \<times> 'a tensor option \<Rightarrow> 'a KVCachePrefill option" where
  "KVCachePrefill_unflatten auxdata data =
     (let cache = KVCachePrefill_init auxdata;
          (cache_k, cache_v) = data;
          cache = cache\<lparr> prefill_cache_k := cache_k \<rparr>;
          cache = cache\<lparr> prefill_cache_v := cache_v \<rparr>
      in None)"

subsection \<open>\<open>KVCacheGenerate\<close>\<close>

text \<open>
  The position argument of the constructors: a vector of one position per batch row, or
  a plain Python integer, which has no attribute \<open>shape\<close>.
\<close>

datatype position = PyInt int | PosTensor "int list"

record ('a, 'd) KVCacheGenerate =
  cache_k :: "'a tensor"
  cache_v :: "'a tensor"
  pos :: "int list"
  batch :: "nat list"
  sharding :: 'd

definition KVCacheGenerate_init ::
  "'a tensor \<Rightarrow> 'a tensor \<Rightarrow> position \<Rightarrow> 'd \<Rightarrow> py_error + ('a, 'd) KVCacheGenerate" where
  "KVCacheGenerate_init k v position sh =
     (case position of
        PyInt _ \<Rightarrow> Inl AttributeError
      | PosTensor p \<Rightarrow>
          Inr \<lparr> cache_k = k, cache_v = v, pos = p, batch = [0..<length p], sharding = sh \<rparr>)"

text \<open>
  \<open>update\<close> unwraps the key and the value and hands the unwrapped arrays to
  \<open>torch.squeeze\<close>. The key buffer is assigned before the value buffer is computed, so
  the cache is returned with the outcome.
\<close>

definition KVCacheGenerate_update ::
  "('a, 'd) KVCacheGenerate \<Rightarrow> 'a tensor \<Rightarrow> 'a tensor
     \<Rightarrow> ('a, 'd) KVCacheGenerate \<times> (py_error + ('a, fval) kv_result)" where
  "KVCacheGenerate_update self key val =
     (let keyj = unwrap key; valuej = unwrap val
      in case torch_squeeze keyj of
           Inl e \<Rightarrow> (self, Inl e)
         | Inr key2 \<Rightarrow>
      (case index_put (cache_k self) (batch self) (pos self) key2 of
           Inl e \<Rightarrow> (self, Inl e)
         | Inr k \<Rightarrow>
      (let self = self\<lparr> cache_k := k \<rparr>
       in case torch_squeeze valuej of
           Inl e \<Rightarrow> (self, Inl e)
         | Inr val2 \<Rightarrow>
      (case index_put (cache_v self) (batch self) (pos self) val2 of
           Inl e \<Rightarrow> (self, Inl e)
         | Inr v \<Rightarrow>
      (let self = self\<lparr> cache_v := v \<rparr>
       in (self, Inr (KV (cache_k self) (cache_v self))))))))"

definition KVCacheGenerate_state :: "('a, 'd) KVCacheGenerate \<Rightarrow> 'a tensor \<times> 'a tensor" where
  "KVCacheGenerate_state self = (cache_k self, cache_v self)"

definition KVCacheGenerate_empty ::
  "(shape4 \<Rightarrow> 'd \<Rightarrow> bool) \<Rightarrow> shape4 \<Rightarrow> 'd \<Rightarrow> bool \<Rightarrow> py_error + (fval, 'd) KVCacheGenerate" where
  "KVCacheGenerate_empty fits sh device bf16 =
     (let default_dtype = (if bf16 then bfloat16 else float32)
      in case jnp_zeros fits sh device default_dtype of
           Inl e \<Rightarrow> Inl e
         | Inr k \<Rightarrow>
             (case jnp_zeros fits sh device default_dtype of
                Inl e \<Rightarrow> Inl e
              | Inr v \<Rightarrow>
                  (let pos = PosTensor [0]
                   in KVCacheGenerate_init k v (PyInt 0) device)))"

definition KVCacheGenerate_flatten ::
  "('a, 'd) KVCacheGenerate \<Rightarrow> ('a tensor \<times> 'a tensor) \<times> (position \<times> 'd)" where
  "KVCacheGenerate_flatten cache =
     ((cache_k cache, cache_v cache), (PosTensor (pos cache), sharding cache))"

definition KVCacheGenerate_unflatten ::
  "position \<times> 'd \<Rightarrow> 'a tensor \<times> 'a tensor \<Rightarrow> py_error + ('a, 'd) KVCacheGenerate" where
  "KVCacheGenerate_unflatten auxdata data =
     (case auxdata of (position, sh) \<Rightarrow>
      case data of (k, v) \<Rightarrow> KVCacheGenerate_init k v position sh)"

subsection \<open>\<open>Int8KVCacheGenerate\<close>\<close>

record 'd Int8KVCacheGenerate =
  int8_cache_k :: "8 word tensor"
  int8_cache_v :: "8 word tensor"
  k_scaler :: "fval tensor"
  v_scaler :: "fval tensor"
  input_pos :: "int list"
  int8_batch :: "nat list"

text \<open>The constructor takes a sharding and does not keep it.\<close>

definition Int8KVCacheGenerate_init ::
  "8 word tensor \<Rightarrow> 8 word tensor \<Rightarrow> fval tensor \<Rightarrow> fval tensor \<Rightarrow> position \<Rightarrow> 'd option
     \<Rightarrow> py_error + 'd Int8KVCacheGenerate" where
  "Int8KVCacheGenerate_init k v ks vs position sh =
     (case position of
        PyInt _ \<Rightarrow> Inl AttributeError
      | PosTensor p \<Rightarrow>
          Inr \<lparr> int8_cache_k = k, int8_cache_v = v, k_scaler = ks, v_scaler = vs,
                input_pos = p, int8_batch = [0..<length p] \<rparr>)"

definition Int8KVCacheGenerate_state :: "'d Int8KVCacheGenerate \<Rightarrow> 8 word tensor \<times> 8 word tensor" where
  "Int8KVCacheGenerate_state self = (int8_cache_k self, int8_cache_v self)"

definition scalers :: "'d Int8KVCacheGenerate \<Rightarrow> fval tensor \<times> fval tensor" where
  "scalers self = (k_scaler self, v_scaler self)"

definition Int8KVCacheGenerate_empty ::
  "(shape4 \<Rightarrow> 'd \<Rightarrow> bool) \<Rightarrow> shape4 \<Rightarrow> 'd \<Rightarrow> bool \<Rightarrow> py_error + 'd Int8KVCacheGenerate" where
  "Int8KVCacheGenerate_empty fits sh device bf16 =
     (case jnp_zeros fits sh device int8 of
        Inl e \<Rightarrow> Inl e
      | Inr k \<Rightarrow>
          (case jnp_zeros fits sh device int8 of
             Inl e \<Rightarrow> Inl e
           | Inr v \<Rightarrow>
               (case sh of (s0, s1, s2, s3) \<Rightarrow>
                  let kscaler = ones (s0, 1, s2, 1) bfloat16;
                      vscaler = ones (s0, 1, s2, 1) bfloat16
                  in Int8KVCacheGenerate_init k v kscaler vscaler (PyInt 0) (Some device))))"

subsection \<open>Quantization\<close>

text \<open>
  Absolute value and maximum of floating point values. A NaN makes the maximum NaN.
\<close>

fun fabs :: "fval \<Rightarrow> fval" where
  "fabs (Finite r) = Finite \<bar>r\<bar>"
| "fabs PosInf = PosInf"
| "fabs NegInf = PosInf"
| "fabs NaN = NaN"

fun fmax :: "fval \<Rightarrow> fval \<Rightarrow> fval" where
  "fmax NaN y = NaN"
| "fmax x NaN = NaN"
| "fmax PosInf y = PosInf"
| "fmax x PosInf = PosInf"
| "fmax NegInf y = y"
| "fmax x NegInf = x"
| "fmax (Finite a) (Finite b) = Finite (max a b)"

text \<open>
  \<open>torch.amax(val.abs(), axis=(1, 3), keepdim=True)\<close>: the largest absolute value over the
  heads and head_dim axes, for every batch row and sequence position. A reduction over an
  empty axis raises; past that check the list of absolute values is not empty.
\<close>

definition amax_abs :: "fval tensor \<Rightarrow> py_error + fval tensor" where
  "amax_abs val =
     (case shape val of (B, H, S, D) \<Rightarrow>
        if H = 0 \<or> D = 0 then Inl ValueError
        else Inr \<lparr> dtype = dtype val, shape = (B, 1, S, 1),
                   elem = (\<lambda>b _ s _.
                     case map (\<lambda>(h, d). fabs (elem val b h s d)) (List.product [0..<H] [0..<D]) of
                       [] \<Rightarrow> NaN
                     | x # xs \<Rightarrow> fold fmax xs x) \<rparr>)"

text \<open>
  Floating point division. The special cases are those of the standard: a NaN operand,
  a zero or an infinite divisor, a zero or an infinite dividend. A zero divisor is the
  positive zero, which is what a scale is when it is zero. For two finite operands other
  than zero, the quotient is rounded to the element type as the platform does it: that is
  the parameter \<open>divr\<close>, a function of the element type, the dividend and the divisor.
\<close>

fun fdiv :: "(dtype \<Rightarrow> rat \<Rightarrow> rat \<Rightarrow> fval) \<Rightarrow> dtype \<Rightarrow> fval \<Rightarrow> fval \<Rightarrow> fval" where
  "fdiv divr dt NaN y = NaN"
| "fdiv divr dt x NaN = NaN"
| "fdiv divr dt (Finite a) (Finite b) =
     (if b = 0 then (if 0 < a then PosInf else if a < 0 then NegInf else NaN)
      else if a = 0 then Finite 0
      else divr dt a b)"
| "fdiv divr dt (Finite a) y = Finite 0"
| "fdiv divr dt PosInf (Finite b) = (if b < 0 then NegInf else PosInf)"
| "fdiv divr dt NegInf (Finite b) = (if b < 0 then PosInf else NegInf)"
| "fdiv divr dt x y = NaN"

text \<open>
  \<open>.to(torch.int8)\<close> drops the fraction of a finite value (rounding towards zero). The
  result for a value that is not finite, or whose integer part is outside of the int8
  range, is left to the platform: it is the parameter \<open>other\<close>.
\<close>

definition trunc :: "rat \<Rightarrow> int" where
  "trunc r = (if r < 0 then \<lceil>r\<rceil> else \<lfloor>r\<rfloor>)"

definition to_int8 :: "(fval \<Rightarrow> 8 word) \<Rightarrow> fval \<Rightarrow> 8 word" where
  "to_int8 other x =
     (case x of
        Finite r \<Rightarrow> if - 128 \<le> trunc r \<and> trunc r \<le> 127 then word_of_int (trunc r) else other x
      | _ \<Rightarrow> other x)"

definition quantize ::
  "(dtype \<Rightarrow> rat \<Rightarrow> rat \<Rightarrow> fval) \<Rightarrow> (fval \<Rightarrow> 8 word) \<Rightarrow> fval tensor
     \<Rightarrow> py_error + (8 word tensor \<times> fval tensor)" where
  "quantize divr other val =
     (case amax_abs val of
        Inl e \<Rightarrow> Inl e
      | Inr scale \<Rightarrow>
          (let scale = scale\<lparr> elem := (\<lambda>b h s d.
                          fdiv divr (dtype val) (elem scale b h s d) (Finite 127)) \<rparr>
           in Inr (\<lparr> dtype = int8, shape = shape val,
                     elem = (\<lambda>b h s d.
                       to_int8 other (fdiv divr (dtype val) (elem val b h s d) (elem scale b 0 s 0))) \<rparr>,
                   scale)))"


text \<open>
  The maximum of a set of absolute values, in the words of the claims: NaN when a NaN is
  among them, else infinite when an infinity is, else the largest of the finite numbers.
\<close>

definition max_fval :: "fval set \<Rightarrow> fval" where
  "max_fval A =
     (if NaN \<in> A then NaN
      else if PosInf \<in> A then PosInf
      else Finite (Max (Finite -` A)))"

section \<open>Properties of the name normalisation\<close>

lemma split_not_Nil: "split sep s \<noteq> []"
  by (induction s) (auto split: list.splits)

lemma split_no_sep: "t \<in> set (split sep s) \<Longrightarrow> sep \<notin> set t"
  by (induction s arbitrary: t) (auto split: if_splits list.splits)

lemma split_join:
  "ts \<noteq> [] \<Longrightarrow> (\<And>t. t \<in> set ts \<Longrightarrow> sep \<notin> set t) \<Longrightarrow> split sep (join [sep] ts) = ts"
proof (induction "[sep]" ts rule: join.induct)
  case 1
  then show ?case by simp
next
  case (2 t)
  then have "sep \<notin> set t" by simp
  then have "split sep t = [t]"
    by (induction t) (auto split: list.splits)
  then show ?case by simp
next
  case (3 t u ts)
  have nosep: "sep \<notin> set t" using "3.prems" by simp
  have rest: "split sep (join [sep] (u # ts)) = u # ts"
    using 3 by simp
  have "split sep (t @ sep # r) = t # split sep r" if "sep \<notin> set t" for t r
    using that by (induction t) (auto split: list.splits)
  from this [OF nosep] rest show ?case by simp
qed

lemma is_integer_star: "\<not> is_integer ''*''"
  by (simp add: is_integer_def strip_def drop_sign_def is_space_def is_digit_def)

lemma star_token_idem: "star_token (star_token t) = star_token t"
  by (simp add: star_token_def is_integer_star)

lemma star_token_no_dot: "CHR ''.'' \<notin> set t \<Longrightarrow> CHR ''.'' \<notin> set (star_token t)"
  by (simp add: star_token_def)

text \<open>
  C10. \<open>process_sharding_name\<close> is idempotent: normalising a name that is already
  normalised changes nothing, since the token \<open>*\<close> is not an integer and no token of
  the joined name contains a dot.
\<close>

theorem process_sharding_name_idempotent:
  "process_sharding_name (process_sharding_name name) = process_sharding_name name"
proof -
  let ?ts = "map star_token (split CHR ''.'' name)"
  have ne: "?ts \<noteq> []" by (simp add: split_not_Nil)
  have nodot: "\<And>t. t \<in> set ?ts \<Longrightarrow> CHR ''.'' \<notin> set t"
    using split_no_sep star_token_no_dot by fastforce
  have "split CHR ''.'' (join ''.'' ?ts) = ?ts"
    using split_join [OF ne nodot] by simp
  then show ?thesis
    by (simp add: process_sharding_name_def star_token_idem comp_def)
qed

section \<open>Properties of the environment\<close>

lemma sharding_by_axis_nat:
  "sharding_by_axis m (Some (int n)) = Inr \<lparr> ns_mesh = m, ns_spec = replicate n None @ [Some ''x''] \<rparr>"
proof -
  have "(replicate (Suc n) None)[n := Some ''x''] = replicate n None @ [Some ''x'']"
    by (induction n) auto
  then show ?thesis
    by (simp add: sharding_by_axis_def setitem_def norm_index_def nat_add_distrib)
qed

lemma getitem_Inr_length: "getitem xs i = Inr v \<Longrightarrow> xs \<noteq> []"
  by (auto simp: getitem_def norm_index_def Let_def split: if_splits)

lemma init_fields:
  assumes "JetEngineEnvironment_init device_count safe_load d = Inr env"
  shows "env_data env = d"
    and "env_mesh env = \<lparr> device_mesh = (device_count, 1), axis_names = [''x'', ''y''] \<rparr>"
    and "load_sharding_config safe_load d = Inr (env_sharding_config env)"
  using assms
  by (auto simp: JetEngineEnvironment_init_def Let_def split: sum.splits)

lemma init_succeeds:
  assumes "cache_sharding_axis d = Inr (int n)"
    and "load_sharding_config safe_load d = Inr cfg"
  shows "\<exists>env. JetEngineEnvironment_init device_count safe_load d = Inr env"
  using assms by (simp add: JetEngineEnvironment_init_def sharding_by_axis_nat Let_def)

text \<open>
  C8. When the axis the configuration names for the cache (axis 0 under batch sharding,
  else the index of the KV shard axis name among the attention axis names) has extent 1
  in the cache shape, the constructor shards the cache on the last axis of the shape: the
  partition spec of \<open>cache_sharding\<close> marks exactly that axis.
\<close>

theorem cache_sharding_axis_fallback:
  assumes nominal: "nominal_axis d = Inr a"
    and extent: "getitem (cache_shape d) a = Inr 1"
    and load: "load_sharding_config safe_load d = Inr cfg"
  shows "cache_sharding_axis d = Inr (int (length (cache_shape d)) - 1) \<and>
         (\<exists>env. JetEngineEnvironment_init device_count safe_load d = Inr env \<and>
            ns_spec (cache_sharding env) =
              replicate (length (cache_shape d) - 1) None @ [Some ''x''])"
proof -
  have ne: "cache_shape d \<noteq> []" using extent by (rule getitem_Inr_length)
  then obtain n where n: "length (cache_shape d) = Suc n"
    by (cases "cache_shape d") auto
  have axis: "cache_sharding_axis d = Inr (int n)"
    using nominal extent n by (simp add: cache_sharding_axis_def)
  show ?thesis
    using axis load n
    by (simp add: JetEngineEnvironment_init_def sharding_by_axis_nat Let_def)
qed

theorem cache_sharding_axis_fallback_witness:
  "nominal_axis (default_data\<lparr>cache_shape := [4, 1, 8, 2]\<rparr>) = Inr 1 \<and>
   getitem (cache_shape (default_data\<lparr>cache_shape := [4, 1, 8, 2]\<rparr>)) 1 = Inr 1 \<and>
   cache_sharding_axis (default_data\<lparr>cache_shape := [4, 1, 8, 2]\<rparr>) = Inr 3 \<and>
   (\<exists>env. JetEngineEnvironment_init 8 (\<lambda>p. Inl OSError) (default_data\<lparr>cache_shape := [4, 1, 8, 2]\<rparr>) = Inr env \<and>
      ns_spec (cache_sharding env) = [None, None, None, Some ''x''])"
proof -
  let ?d = "default_data\<lparr>cache_shape := [4, 1, 8, 2]\<rparr>"
  have a: "nominal_axis ?d = Inr 1"
    by (simp add: nominal_axis_def default_data_def)
  have b: "getitem (cache_shape ?d) 1 = Inr 1"
    by (simp add: getitem_def norm_index_def)
  have c: "load_sharding_config (\<lambda>p. Inl OSError) ?d = Inr Map.empty"
    by (simp add: load_sharding_config_def default_data_def)
  show ?thesis
    using a b cache_sharding_axis_fallback [OF a b c, of 8]
    by (simp add: numeral_eq_Suc)
qed

text \<open>
  C7, as the code has it. Under batch sharding \<open>sharding_by_name\<close> returns the sharding of
  axis 0 and looks nothing up. Otherwise the literal name is looked up in the sharding
  config, then the name with its integer segments replaced by \<open>*\<close>, and the entry found
  first decides; when neither is in the config the call raises \<open>RuntimeError\<close>. The
  error belongs to the call of \<open>sharding_by_name\<close>: the constructor looks no name up.
\<close>

theorem sharding_by_name_resolution:
  "(shard_on_batch (env_data self) \<longrightarrow>
      sharding_by_name self name = Inr \<lparr> ns_mesh = env_mesh self, ns_spec = [Some ''x''] \<rparr>) \<and>
   (\<not> shard_on_batch (env_data self) \<longrightarrow>
      (\<forall>axis. env_sharding_config self name = Some axis \<longrightarrow>
         sharding_by_name self name = sharding_by_axis (env_mesh self) axis) \<and>
      (\<forall>axis. env_sharding_config self name = None \<and>
              env_sharding_config self (process_sharding_name name) = Some axis \<longrightarrow>
         sharding_by_name self name = sharding_by_axis (env_mesh self) axis) \<and>
      (env_sharding_config self name = None \<and>
       env_sharding_config self (process_sharding_name name) = None \<longrightarrow>
         sharding_by_name self name = Inl RuntimeError))"
  using sharding_by_axis_nat [of "env_mesh self" 0]
  by (simp add: sharding_by_name_def Let_def)

theorem sharding_by_name_resolution_witness:
  "(\<exists>env. JetEngineEnvironment_init 8 (\<lambda>p. Inl OSError)
            (default_data\<lparr>cache_shape := [4, 2, 8, 2], shard_on_batch := True\<rparr>) = Inr env \<and>
      shard_on_batch (env_data env) \<and>
      sharding_by_name env ''tok_embeddings.weight'' =
        Inr \<lparr> ns_mesh = env_mesh env, ns_spec = [Some ''x''] \<rparr>) \<and>
   (\<exists>env. JetEngineEnvironment_init 8
            (\<lambda>p. Inr [''layers.*.attention.wq.weight'' \<mapsto> Some 1, ''norm.weight'' \<mapsto> None])
            (default_data\<lparr>cache_shape := [4, 2, 8, 2], sharding_config_path := ''llama.yaml''\<rparr>) = Inr env \<and>
      \<not> shard_on_batch (env_data env) \<and>
      env_sharding_config env ''norm.weight'' = Some None \<and>
      sharding_by_name env ''norm.weight'' = Inr \<lparr> ns_mesh = env_mesh env, ns_spec = [] \<rparr> \<and>
      env_sharding_config env ''layers.3.attention.wq.weight'' = None \<and>
      env_sharding_config env (process_sharding_name ''layers.3.attention.wq.weight'') = Some (Some 1) \<and>
      sharding_by_name env ''layers.3.attention.wq.weight'' =
        Inr \<lparr> ns_mesh = env_mesh env, ns_spec = [None, Some ''x''] \<rparr> \<and>
      env_sharding_config env ''output.weight'' = None \<and>
      env_sharding_config env (process_sharding_name ''output.weight'') = None \<and>
      sharding_by_name env ''output.weight'' = Inl RuntimeError)"
proof (intro conjI)
  let ?d = "default_data\<lparr>cache_shape := [4, 2, 8, 2], shard_on_batch := True\<rparr>"
  have "cache_sharding_axis ?d = Inr (int 0)"
    by (simp add: cache_sharding_axis_def nominal_axis_def getitem_def norm_index_def)
  moreover have "load_sharding_config (\<lambda>p. Inl OSError) ?d = Inr Map.empty"
    by (simp add: load_sharding_config_def default_data_def)
  ultimately obtain env where env: "JetEngineEnvironment_init 8 (\<lambda>p. Inl OSError) ?d = Inr env"
    using init_succeeds by blast
  have sob: "shard_on_batch (env_data env)"
    using init_fields(1) [OF env] by simp
  show "\<exists>env. JetEngineEnvironment_init 8 (\<lambda>p. Inl OSError) ?d = Inr env \<and>
      shard_on_batch (env_data env) \<and>
      sharding_by_name env ''tok_embeddings.weight'' =
        Inr \<lparr> ns_mesh = env_mesh env, ns_spec = [Some ''x''] \<rparr>"
    using env sob sharding_by_name_resolution [of env "''tok_embeddings.weight''"] by simp
next
  let ?cfg = "[''layers.*.attention.wq.weight'' \<mapsto> Some 1, ''norm.weight'' \<mapsto> None] :: sharding_config"
  let ?d = "default_data\<lparr>cache_shape := [4, 2, 8, 2], sharding_config_path := ''llama.yaml''\<rparr>"
  have "cache_sharding_axis ?d = Inr (int 1)"
    by (simp add: cache_sharding_axis_def nominal_axis_def getitem_def norm_index_def default_data_def)
  moreover have "load_sharding_config (\<lambda>p. Inr ?cfg) ?d = Inr ?cfg"
    by (simp add: load_sharding_config_def)
  ultimately obtain env where env: "JetEngineEnvironment_init 8 (\<lambda>p. Inr ?cfg) ?d = Inr env"
    using init_succeeds by blast
  have sob: "\<not> shard_on_batch (env_data env)"
    using init_fields(1) [OF env] by (simp add: default_data_def)
  have cfg: "env_sharding_config env = ?cfg"
    using init_fields(3) [OF env] by (simp add: load_sharding_config_def)
  have psn: "process_sharding_name ''layers.3.attention.wq.weight'' = ''layers.*.attention.wq.weight''"
    "process_sharding_name ''output.weight'' = ''output.weight''"
    by (simp_all add: process_sharding_name_def star_token_def is_integer_def strip_def
        drop_sign_def is_space_def is_digit_def)
  have ax: "sharding_by_axis (env_mesh env) None = Inr \<lparr> ns_mesh = env_mesh env, ns_spec = [] \<rparr>"
    "sharding_by_axis (env_mesh env) (Some 1) = Inr \<lparr> ns_mesh = env_mesh env, ns_spec = [None, Some ''x''] \<rparr>"
    using sharding_by_axis_nat [of "env_mesh env" 1] by (simp_all add: sharding_by_axis_def)
  show "\<exists>env. JetEngineEnvironment_init 8 (\<lambda>p. Inr ?cfg) ?d = Inr env \<and>
      \<not> shard_on_batch (env_data env) \<and>
      env_sharding_config env ''norm.weight'' = Some None \<and>
      sharding_by_name env ''norm.weight'' = Inr \<lparr> ns_mesh = env_mesh env, ns_spec = [] \<rparr> \<and>
      env_sharding_config env ''layers.3.attention.wq.weight'' = None \<and>
      env_sharding_config env (process_sharding_name ''layers.3.attention.wq.weight'') = Some (Some 1) \<and>
      sharding_by_name env ''layers.3.attention.wq.weight'' =
        Inr \<lparr> ns_mesh = env_mesh env, ns_spec = [None, Some ''x''] \<rparr> \<and>
      env_sharding_config env ''output.weight'' = None \<and>
      env_sharding_config env (process_sharding_name ''output.weight'') = None \<and>
      sharding_by_name env ''output.weight'' = Inl RuntimeError"
    using env sob
      sharding_by_name_resolution [of env "''norm.weight''"]
      sharding_by_name_resolution [of env "''layers.3.attention.wq.weight''"]
      sharding_by_name_resolution [of env "''output.weight''"]
    by (simp add: cfg psn ax)
qed

text \<open>
  The claim C7 places the error at the construction of the environment. The constructor
  succeeds on a configuration without any sharding rule; the error comes with the later
  call for a name.
\<close>

theorem sharding_error_not_at_construction:
  "map_sum id (\<lambda>env. sharding_by_name env ''output.weight'')
     (JetEngineEnvironment_init 8 (\<lambda>p. Inl OSError) (default_data\<lparr>cache_shape := [4, 2, 8, 2]\<rparr>))
   = Inr (Inl RuntimeError)"
proof -
  let ?d = "default_data\<lparr>cache_shape := [4, 2, 8, 2]\<rparr>"
  have "cache_sharding_axis ?d = Inr (int 1)"
    by (simp add: cache_sharding_axis_def nominal_axis_def getitem_def norm_index_def default_data_def)
  moreover have "load_sharding_config (\<lambda>p. Inl OSError) ?d = Inr Map.empty"
    by (simp add: load_sharding_config_def default_data_def)
  ultimately obtain env where env: "JetEngineEnvironment_init 8 (\<lambda>p. Inl OSError) ?d = Inr env"
    using init_succeeds by blast
  have "\<not> shard_on_batch (env_data env)" "env_sharding_config env = Map.empty"
    using init_fields(1,3) [OF env] by (simp_all add: default_data_def load_sharding_config_def)
  then have "sharding_by_name env ''output.weight'' = Inl RuntimeError"
    by (simp add: sharding_by_name_def)
  with env show ?thesis by simp
qed

section \<open>Properties of the indexed write\<close>

lemma put_row_shape [simp]: "shape (put_row buf b p v) = shape buf"
  by (simp add: put_row_def split: prod.splits option.splits)

lemma put_row_dtype [simp]: "dtype (put_row buf b p v) = dtype buf"
  by (simp add: put_row_def split: prod.splits option.splits)

lemma put_rows_shape [simp]: "shape (put_rows buf ts v) = shape buf"
  by (induction buf ts v rule: put_rows.induct) simp_all

lemma put_rows_dtype [simp]: "dtype (put_rows buf ts v) = dtype buf"
  by (induction buf ts v rule: put_rows.induct) simp_all








section \<open>Properties of the caches\<close>

subsection \<open>Prefill\<close>

text \<open>
  C9. After two updates of a prefill cache, first with \<open>(k1, v1)\<close> and then with
  \<open>(k2, v2)\<close>, \<open>state\<close> returns exactly \<open>(k2, v2)\<close>: the second update replaces the first.
\<close>

theorem prefill_update_overwrites:
  "KVCachePrefill_state
     (fst (KVCachePrefill_update (fst (KVCachePrefill_update self k1 v1)) k2 v2))
   = (Some k2, Some v2)"
  by (simp add: KVCachePrefill_state_def KVCachePrefill_update_def Let_def split: prod.splits)

subsection \<open>Construction of an empty generate cache\<close>

text \<open>
  C4, at the code. Both \<open>empty\<close> factories pass the integer \<open>0\<close> as the position, and the
  constructors read \<open>position.shape[0]\<close>: for every shape, device and precision flag the
  call ends in an exception and no cache is returned. The exception is \<open>AttributeError\<close>,
  unless the allocation of the buffers has failed before with \<open>ValueError\<close>.
\<close>

theorem empty_raises_AttributeError:
  "KVCacheGenerate_empty fits sh device bf16
     = Inl (if fits sh device then AttributeError else ValueError) \<and>
   Int8KVCacheGenerate_empty fits sh device bf16
     = Inl (if fits sh device then AttributeError else ValueError)"
  by (simp add: KVCacheGenerate_empty_def KVCacheGenerate_init_def jnp_zeros_def
      Int8KVCacheGenerate_empty_def Int8KVCacheGenerate_init_def Let_def split: prod.splits)

subsection \<open>Flattening and reconstruction\<close>

text \<open>
  C5, at the code. Reconstructing a prefill cache from its flattened parts returns
  \<open>None\<close>, for every cache: \<open>KVCachePrefill_unflatten\<close> has no \<open>return\<close>.
\<close>

theorem KVCachePrefill_unflatten_returns_None:
  "KVCachePrefill_unflatten (snd (KVCachePrefill_flatten cache)) (fst (KVCachePrefill_flatten cache))
   = None"
  by (simp add: KVCachePrefill_unflatten_def KVCachePrefill_flatten_def Let_def)

text \<open>
  The generate cache does come back as it was: the constructor recomputes \<open>batch\<close> from
  the position vector, as it did for the original.
\<close>

lemma KVCacheGenerate_init_batch:
  "KVCacheGenerate_init k v position sh = Inr cache \<Longrightarrow> batch cache = [0..<length (pos cache)]"
  by (auto simp: KVCacheGenerate_init_def split: position.splits)

lemma KVCacheGenerate_unflatten_flatten:
  assumes "batch cache = [0..<length (pos cache)]"
  shows "KVCacheGenerate_unflatten (snd (KVCacheGenerate_flatten cache))
           (fst (KVCacheGenerate_flatten cache)) = Inr cache"
  using assms
  by (simp add: KVCacheGenerate_unflatten_def KVCacheGenerate_flatten_def KVCacheGenerate_init_def)

subsection \<open>The update of a generate cache\<close>

text \<open>
  C3, at the code. \<open>KVCacheGenerate.update\<close> unwraps its arguments and calls
  \<open>torch.squeeze\<close> on the unwrapped JAX arrays: for every cache, key and value the call
  ends in \<open>TypeError\<close>, and the cache is as it was before. Nothing is written, at the
  addressed column or anywhere else.
\<close>

theorem KVCacheGenerate_update_raises_TypeError:
  "KVCacheGenerate_update self key val = (self, Inl TypeError)"
  by (simp add: KVCacheGenerate_update_def unwrap_def torch_squeeze_def)

section \<open>Properties of the quantization\<close>

lemma finite_vimage_Finite: "finite A \<Longrightarrow> finite (Finite -` A)"
  by (rule finite_vimageI) (auto simp: inj_on_def)

lemma vimage_Finite_insert:
  "Finite -` insert x A = (case x of Finite r \<Rightarrow> insert r (Finite -` A) | _ \<Rightarrow> Finite -` A)"
  by (cases x) auto

lemma max_fval_fmax:
  assumes "finite T" and "x \<noteq> NegInf" and "y \<noteq> NegInf"
  shows "max_fval (insert (fmax x y) T) = max_fval (insert x (insert y T))"
proof (cases "\<exists>a b. x = Finite a \<and> y = Finite b")
  case True
  then obtain a b where x: "x = Finite a" and y: "y = Finite b" by blast
  let ?R = "Finite -` T"
  have fin: "finite ?R" using assms(1) by (rule finite_vimage_Finite)
  have "Max (insert (max a b) ?R) = Max (insert a (insert b ?R))"
  proof (cases "?R = {}")
    case True
    then show ?thesis by simp
  next
    case False
    then show ?thesis using fin by (simp add: max.assoc)
  qed
  then show ?thesis
    by (simp add: x y max_fval_def vimage_Finite_insert)
next
  case False
  with assms(2,3) show ?thesis
    by (cases x; cases y) (auto simp: max_fval_def vimage_Finite_insert)
qed

lemma fmax_not_NegInf: "x \<noteq> NegInf \<Longrightarrow> y \<noteq> NegInf \<Longrightarrow> fmax x y \<noteq> NegInf"
  by (cases x; cases y) auto

lemma fold_fmax_max_fval:
  assumes "NegInf \<notin> set (y0 # ys)"
  shows "fold fmax ys y0 = max_fval (set (y0 # ys))"
  using assms
proof (induction ys arbitrary: y0)
  case Nil
  then show ?case
    by (cases y0) (auto simp: max_fval_def vimage_Finite_insert)
next
  case (Cons y ys)
  have n: "y \<noteq> NegInf" "y0 \<noteq> NegInf" "NegInf \<notin> set ys"
    using Cons.prems by auto
  have "fold fmax (y # ys) y0 = fold fmax ys (fmax y y0)" by simp
  also have "\<dots> = max_fval (set (fmax y y0 # ys))"
    using n fmax_not_NegInf [of y y0] by (intro Cons.IH) auto
  also have "\<dots> = max_fval (insert y (insert y0 (set ys)))"
    using max_fval_fmax [of "set ys" y y0] n by simp
  also have "insert y (insert y0 (set ys)) = set (y0 # y # ys)" by auto
  finally show ?case .
qed

lemma fabs_not_NegInf: "fabs x \<noteq> NegInf" "NegInf \<noteq> fabs x"
  by (cases x; simp)+

lemma amax_abs_max_fval:
  assumes "shape val = (B, H, S, D)" and "0 < H" and "0 < D"
  shows "\<exists>a. amax_abs val = Inr a \<and> shape a = (B, 1, S, 1) \<and> dtype a = dtype val \<and>
           (\<forall>b h' s d'. elem a b h' s d' =
              max_fval ((\<lambda>(h, d). fabs (elem val b h s d)) ` ({..<H} \<times> {..<D})))"
proof -
  have "(case map (\<lambda>(h, d). fabs (elem val b h s d)) (List.product [0..<H] [0..<D]) of
           [] \<Rightarrow> NaN | x # xs \<Rightarrow> fold fmax xs x)
          = max_fval ((\<lambda>(h, d). fabs (elem val b h s d)) ` ({..<H} \<times> {..<D}))" for b s
  proof -
    let ?ys = "map (\<lambda>(h, d). fabs (elem val b h s d)) (List.product [0..<H] [0..<D])"
    have len: "length ?ys = H * D" by simp
    have ne: "?ys \<noteq> []"
    proof
      assume "?ys = []"
      then have "length ?ys = 0" by (simp only: list.size)
      with len have "H * D = 0" by (simp only:)
      with assms(2,3) show False by simp
    qed
    then obtain x xs where xs: "?ys = x # xs" by (cases ?ys) auto
    have "NegInf \<notin> set ?ys" by (auto simp: fabs_not_NegInf)
    then have "fold fmax xs x = max_fval (set ?ys)"
      unfolding xs by (rule fold_fmax_max_fval)
    also have "set ?ys = (\<lambda>(h, d). fabs (elem val b h s d)) ` ({..<H} \<times> {..<D})"
      by (simp add: atLeast0LessThan)
    finally show ?thesis by (simp only: xs list.case)
  qed
  then show ?thesis
    using assms by (simp add: amax_abs_def)
qed

lemma sint_int8: "- 128 \<le> t \<Longrightarrow> t \<le> 127 \<Longrightarrow> sint (word_of_int t :: 8 word) = t"
  by (simp add: sint_sbintrunc' signed_take_bit_int_eq_self)

lemma quantize_cells:
  assumes sh: "shape val = (B, H, S, D)" and H: "0 < H" and D: "0 < D"
  shows "\<exists>q scale. quantize divr other val = Inr (q, scale) \<and>
           shape scale = (B, 1, S, 1) \<and> dtype scale = dtype val \<and>
           shape q = (B, H, S, D) \<and> dtype q = int8 \<and>
           (\<forall>b h' s d'. elem scale b h' s d' =
              fdiv divr (dtype val)
                (max_fval ((\<lambda>(h, d). fabs (elem val b h s d)) ` ({..<H} \<times> {..<D})))
                (Finite 127)) \<and>
           (\<forall>b h s d. elem q b h s d =
              to_int8 other (fdiv divr (dtype val) (elem val b h s d) (elem scale b 0 s 0)))"
proof -
  from amax_abs_max_fval [OF sh H D]
  obtain a where a: "amax_abs val = Inr a" and ash: "shape a = (B, 1, S, 1)"
    and adt: "dtype a = dtype val"
    and ael: "\<And>b h' s d'. elem a b h' s d' =
        max_fval ((\<lambda>(h, d). fabs (elem val b h s d)) ` ({..<H} \<times> {..<D}))"
    by blast
  show ?thesis
    using ash adt sh by (simp add: quantize_def a ael)
qed

text \<open>
  C1, as the code has it. For a tensor of shape \<open>(batch, heads, seq, head_dim)\<close> with
  \<open>heads\<close> and \<open>head_dim\<close> not zero, \<open>quantize\<close> returns a scale of shape
  \<open>(batch, 1, seq, 1)\<close> that is the largest absolute value over the heads and head_dim
  axes divided by 127, and an int8 tensor whose elements are the quotients \<open>val / scale\<close>
  with the fraction dropped: rounded towards zero, not to the nearest integer, wherever
  the quotient is finite and its integer part is in the int8 range. Both divisions are
  the floating point divisions of the tensor's element type.
\<close>

theorem quantize_scale_and_truncation:
  assumes sh: "shape val = (B, H, S, D)" and H: "0 < H" and D: "0 < D"
  shows "\<exists>q scale. quantize divr other val = Inr (q, scale) \<and>
           shape scale = (B, 1, S, 1) \<and> shape q = (B, H, S, D) \<and> dtype q = int8 \<and>
           (\<forall>b s. elem scale b 0 s 0 =
              fdiv divr (dtype val)
                (max_fval ((\<lambda>(h, d). fabs (elem val b h s d)) ` ({..<H} \<times> {..<D})))
                (Finite 127)) \<and>
           (\<forall>b h s d r.
              fdiv divr (dtype val) (elem val b h s d) (elem scale b 0 s 0) = Finite r \<and>
              - 128 \<le> trunc r \<and> trunc r \<le> 127 \<longrightarrow>
                sint (elem q b h s d) = trunc r)"
proof -
  from quantize_cells [OF sh H D, of divr other]
  obtain q scale where q: "quantize divr other val = Inr (q, scale)"
    and shs: "shape scale = (B, 1, S, 1)" "shape q = (B, H, S, D)" "dtype q = int8"
    and sel: "\<And>b h' s d'. elem scale b h' s d' =
        fdiv divr (dtype val)
          (max_fval ((\<lambda>(h, d). fabs (elem val b h s d)) ` ({..<H} \<times> {..<D})))
          (Finite 127)"
    and qel: "\<And>b h s d. elem q b h s d =
        to_int8 other (fdiv divr (dtype val) (elem val b h s d) (elem scale b 0 s 0))"
    by blast
  have "sint (elem q b h s d) = trunc r"
    if "fdiv divr (dtype val) (elem val b h s d) (elem scale b 0 s 0) = Finite r"
      and "- 128 \<le> trunc r" and "trunc r \<le> 127" for b h s d r
    using that by (simp add: qel to_int8_def sint_int8)
  then show ?thesis
    using q shs sel by blast
qed

theorem quantize_scale_and_truncation_witness:
  "(let val = \<lparr> dtype = bfloat16, shape = (1, 1, 1, 2),
                  elem = (\<lambda>b h s d. if d = 0 then Finite (- 254) else Finite 5) \<rparr>
    in shape val = (1, 1, 1, 2) \<and>
       (\<exists>q scale. quantize (\<lambda>dt a b. Finite (a / b)) (\<lambda>x. 0) val = Inr (q, scale) \<and>
          shape scale = (1, 1, 1, 1) \<and> elem scale 0 0 0 0 = Finite 2 \<and>
          sint (elem q 0 0 0 0) = - 127 \<and> sint (elem q 0 0 0 1) = 2))"
proof -
  let ?val = "\<lparr> dtype = bfloat16, shape = (1, 1, 1, 2),
                 elem = (\<lambda>b h s d. if d = 0 then Finite (- 254) else Finite 5) \<rparr>"
  let ?divr = "\<lambda>(dt :: dtype) (a :: rat) b. Finite (a / b)"
  have sh: "shape ?val = (1, 1, 1, 2)" by simp
  have img: "(\<lambda>(h, d). fabs (elem ?val 0 h 0 d)) ` ({..<1} \<times> {..<2}) = {Finite 254, Finite 5}"
    by (auto simp: image_iff lessThan_Suc numeral_2_eq_2)
  have mx: "max_fval {Finite 254, Finite 5} = Finite 254"
    by (simp add: max_fval_def vimage_Finite_insert)
  from quantize_scale_and_truncation [OF sh, of ?divr "\<lambda>x. 0"]
  obtain q scale where q: "quantize ?divr (\<lambda>x. 0) ?val = Inr (q, scale)"
    and ssh: "shape scale = (1, 1, 1, 1)"
    and sel: "\<And>b s. elem scale b 0 s 0 =
        fdiv ?divr (dtype ?val)
          (max_fval ((\<lambda>(h, d). fabs (elem ?val b h s d)) ` ({..<1} \<times> {..<2}))) (Finite 127)"
    and qel: "\<And>b h s d r.
        fdiv ?divr (dtype ?val) (elem ?val b h s d) (elem scale b 0 s 0) = Finite r \<and>
        - 128 \<le> trunc r \<and> trunc r \<le> 127 \<longrightarrow> sint (elem q b h s d) = trunc r"
    by auto
  have s0: "elem scale 0 0 0 0 = Finite 2"
    by (simp only: sel img mx) simp
  have fl: "\<lfloor>5 / 2 :: rat\<rfloor> = 2"
    by (rule floor_unique) simp_all
  have "sint (elem q 0 0 0 0) = - 127"
    using qel [of 0 0 0 0 "- 127"] by (simp add: s0 trunc_def)
  moreover have "sint (elem q 0 0 0 1) = 2"
    using qel [of 0 0 0 1 "5 / 2"] by (simp add: s0 trunc_def fl)
  ultimately show ?thesis
    using q ssh s0 by (simp add: Let_def)
qed

text \<open>
  The claim C1 has the quotient rounded. At the row \<open>(127, 3/4)\<close> the scale is 1 and
  the second quotient is \<open>3/4\<close>, which rounds to 1; \<open>quantize\<close> stores 0. All of these
  numbers and quotients are bfloat16 numbers, so the division rounds nothing.
\<close>

theorem quantize_does_not_round:
  "(let val = \<lparr> dtype = bfloat16, shape = (1, 1, 1, 2),
                  elem = (\<lambda>b h s d. if d = 0 then Finite 127 else Finite (3 / 4)) \<rparr>
    in map_sum id (\<lambda>(q, scale). (elem scale 0 0 0 0, sint (elem q 0 0 0 1)))
         (quantize (\<lambda>dt a b. Finite (a / b)) (\<lambda>x. 0) val) = Inr (Finite 1, 0) \<and>
       round (3 / 4 / 1 :: rat) = 1)"
proof -
  have r: "round (3 / 4 :: rat) = 1"
    unfolding round_def by (rule floor_unique) simp_all
  have fl: "\<lfloor>3 / 4 :: rat\<rfloor> = 0"
    by (rule floor_unique) simp_all
  show ?thesis
    by (simp add: Let_def quantize_def amax_abs_def upt_conv_Cons to_int8_def trunc_def r fl)
qed




section \<open>Positions outside of the capacity\<close>









end
